theory Spec2Isabelle
  imports Complex_Main
begin

section \<open>Echelle collections of one-dimensional spectra (specim/specfuncs/echelle1d.py)\<close>

text \<open>
  The module defines one class, \<open>Ech1d\<close>, a Python list of \<open>Spec1d\<close> instances with a
  constructor and the two methods \<open>plot_all\<close> and \<open>save_multi\<close>. The embedding keeps
  the control flow of each method; printing, opening a file and the calls made on the
  plotting surface are recorded as a list of events, the FITS files on disk are a map from
  path to record list, and every \<open>raise\<close> is a value.
\<close>

subsection \<open>Floating-point values\<close>

text \<open>
  The code compares wavelengths and takes their minimum and maximum; it does no
  arithmetic on them. A Python float is therefore a number, one of the two infinities,
  or NaN. The numbers and infinities are linearly ordered; NaN is not comparable.
\<close>

datatype xreal = NegInf | Fin real | PosInf

instantiation xreal :: linorder
begin

fun less_eq_xreal :: "xreal \<Rightarrow> xreal \<Rightarrow> bool" where
  "less_eq_xreal NegInf y = True"
| "less_eq_xreal (Fin a) NegInf = False"
| "less_eq_xreal (Fin a) (Fin b) = (a \<le> b)"
| "less_eq_xreal (Fin a) PosInf = True"
| "less_eq_xreal PosInf PosInf = True"
| "less_eq_xreal PosInf y = False"

definition less_xreal :: "xreal \<Rightarrow> xreal \<Rightarrow> bool" where
  "less_xreal x y = (x \<le> y \<and> \<not> y \<le> x)"

instance
proof
  fix x y z :: xreal
  show "(x < y) = (x \<le> y \<and> \<not> y \<le> x)" by (simp add: less_xreal_def)
  show "x \<le> x" by (cases x) simp_all
  show "x \<le> y \<Longrightarrow> y \<le> z \<Longrightarrow> x \<le> z" by (cases x; cases y; cases z) simp_all
  show "x \<le> y \<Longrightarrow> y \<le> x \<Longrightarrow> x = y" by (cases x; cases y) simp_all
  show "x \<le> y \<or> y \<le> x" by (cases x; cases y) auto
qed

end

datatype pyfloat = NaN | Val xreal

text \<open>\<open>a < b\<close> on floats: false as soon as one side is NaN.\<close>

fun py_less :: "pyfloat \<Rightarrow> pyfloat \<Rightarrow> bool" where
  "py_less (Val a) (Val b) = (a < b)"
| "py_less a b = False"

text \<open>The minimum and maximum of numpy on two values: NaN as soon as one of them is.\<close>

fun np_min :: "pyfloat \<Rightarrow> pyfloat \<Rightarrow> pyfloat" where
  "np_min (Val a) (Val b) = Val (min a b)"
| "np_min a b = NaN"

fun np_max :: "pyfloat \<Rightarrow> pyfloat \<Rightarrow> pyfloat" where
  "np_max (Val a) (Val b) = Val (max a b)"
| "np_max a b = NaN"

subsection \<open>Data model\<close>

type_synonym column = "pyfloat list"

type_synonym table = "(string \<times> column) list"

text \<open>
  Modelled from the spec: the class \<open>Spec1d\<close> (specim/specfuncs/spec1d.py) is not part
  of the sources at hand. The spec describes an order spectrum as one order's 1D spectrum
  with a wavelength column, a flux column and optionally variance and sky columns; the
  method \<open>plot_all\<close> reads the wavelength column as \<open>spec['wav']\<close>.
\<close>

record Spec1d =
  wav :: column
  flux :: column
  var :: "column option"
  sky :: "column option"

text \<open>
  Modelled from the spec: \<open>len(spec)\<close> of a \<open>Spec1d\<close> is its number of samples (the
  rows of the table it is).
\<close>

definition len :: "Spec1d \<Rightarrow> nat" where
  "len spec = length (wav spec)"

text \<open>
  Modelled from the spec: \<open>Table(spec)\<close> converts an order to a table with columns for
  wavelength and flux, plus variance and sky when present.
\<close>

definition Table :: "Spec1d \<Rightarrow> table" where
  "Table spec =
     [(''wav'', wav spec), (''flux'', flux spec)]
     @ (case var spec of None \<Rightarrow> [] | Some v \<Rightarrow> [(''var'', v)])
     @ (case sky spec of None \<Rightarrow> [] | Some s \<Rightarrow> [(''sky'', s)])"

text \<open>A record (HDU) of a multi-record FITS file: the empty primary record or a table.\<close>

datatype hdu = PrimaryHDU | BinTableHDU table

definition table_to_hdu :: "table \<Rightarrow> hdu" where
  "table_to_hdu t = BinTableHDU t"

text \<open>
  An exception has a class, the arguments it was constructed with, and (Python 3) the
  exception that was being handled when it was raised, its \<open>__context__\<close>. The class
  \<open>IOError\<close> is \<open>OSError\<close> with all its subclasses, as \<open>except IOError\<close> catches them.
\<close>

datatype exc_class = TypeError | IOError | NameError | ValueError | KeyError

datatype exn = Exn (exn_class: exc_class) (exn_args: "string list") (exn_context: "exn option")

text \<open>\<open>raise C\<close> outside any handler: an instance of \<open>C\<close> without arguments or context.\<close>

definition bare :: "exc_class \<Rightarrow> exn" where
  "bare c = Exn c [] None"

text \<open>An exception \<open>e\<close> that leaves a call made inside the handler of \<open>c\<close>: the innermost
  exception of its context chain was raised while \<open>c\<close> was being handled.\<close>

primrec during :: "exn \<Rightarrow> exn \<Rightarrow> exn" where
  "during (Exn k a x) c =
     Exn k a (Some (case map_option (\<lambda>y. during y c) x of None \<Rightarrow> c | Some y \<Rightarrow> y))"

text \<open>
  Modelled from the spec: \<open>Spec1d(hdu=h)\<close> constructs one order spectrum from one
  tabular record of the file (wavelength and flux, optionally variance and sky).
\<close>

definition Spec1d_hdu :: "hdu \<Rightarrow> exn + Spec1d" where
  "Spec1d_hdu h =
     (case h of
        PrimaryHDU \<Rightarrow> Inl (bare TypeError)
      | BinTableHDU t \<Rightarrow>
          (case map_of t ''wav'' of
             None \<Rightarrow> Inl (Exn KeyError [''wav''] None)
           | Some w \<Rightarrow>
               (case map_of t ''flux'' of
                  None \<Rightarrow> Inl (Exn KeyError [''flux''] None)
                | Some f \<Rightarrow>
                    Inr \<lparr>wav = w, flux = f, var = map_of t ''var'', sky = map_of t ''sky''\<rparr>)))"

text \<open>An element of the list handed to the constructor is any Python object: an
  instance of \<open>Spec1d\<close> or something else (kept by its description).\<close>

datatype pyobj = Spec1dObj Spec1d | OtherObj string

primrec isinstance_Spec1d :: "pyobj \<Rightarrow> bool" where
  "isinstance_Spec1d (Spec1dObj s) = True"
| "isinstance_Spec1d (OtherObj d) = False"

text \<open>The FITS files on disk, by path.\<close>

type_synonym filesystem = "string \<rightharpoonup> hdu list"

text \<open>The value of the \<open>title\<close> variable of \<open>plot_all\<close>: \<open>None\<close>, \<open>False\<close> or a string.\<close>

datatype pytitle = TitleNone | TitleFalse | Title string

type_synonym kwargs = "(string \<times> string) list"

text \<open>What a method does besides returning: lines printed, files opened for reading,
  and the calls on the spectra and on the shared plot, in the order they happen.\<close>

datatype event =
    Print string
  | FitsOpen string
  | Plot Spec1d string pytitle kwargs
  | Smooth Spec1d int string pytitle bool kwargs
  | Mark_lines Spec1d string pyfloat bool bool
  | Xlim pyfloat pyfloat

subsection \<open>The constructor\<close>

text \<open>\<open>pf.open(echfile)\<close>: the library refuses the empty file name with a
  \<open>ValueError\<close>, and raises an \<open>IOError\<close> naming the file when there is no FITS file to
  read at the path.\<close>

definition pf_open :: "filesystem \<Rightarrow> string \<Rightarrow> exn + hdu list" where
  "pf_open fs echfile =
     (if echfile = '''' then Inl (bare ValueError)
      else case fs echfile of
             None \<Rightarrow> Inl (Exn IOError [echfile] None)
           | Some hdu \<Rightarrow> Inr hdu)"

text \<open>The three lines printed before \<open>raise TypeError\<close>.\<close>

definition type_notice :: "event list" where
  "type_notice =
     [Print '''',
      Print ''With speclist option the list must contain Spec1d instances'',
      Print '''']"

text \<open>\<open>for spec in speclist\<close>: the type check, then \<open>self.append(spec)\<close>. The loop
  returns what was printed, the exception raised if any, and \<open>self\<close> as it stands.\<close>

fun speclist_loop :: "pyobj list \<Rightarrow> Spec1d list \<Rightarrow> event list \<times> exn option \<times> Spec1d list" where
  "speclist_loop [] self = ([], None, self)"
| "speclist_loop (spec # rest) self =
     (case spec of
        OtherObj d \<Rightarrow> (type_notice, Some (bare TypeError), self)
      | Spec1dObj s \<Rightarrow> speclist_loop rest (self @ [s]))"

text \<open>\<open>for i in range(1, len(hdu))\<close>: one \<open>Spec1d\<close> from record \<open>i\<close>, appended.\<close>

fun hdu_loop :: "hdu list \<Rightarrow> nat list \<Rightarrow> Spec1d list \<Rightarrow> exn option \<times> Spec1d list" where
  "hdu_loop hdu [] self = (None, self)"
| "hdu_loop hdu (i # is) self =
     (case Spec1d_hdu (hdu ! i) of
        Inl e \<Rightarrow> (Some e, self)
      | Inr spec \<Rightarrow> hdu_loop hdu is (self @ [spec]))"

text \<open>\<open>Ech1d.__init__\<close>, run on the list \<open>self\<close> (empty when the object is created).
  The handler \<open>except IOError: raise IOError\<close> catches exceptions of that class only and
  raises a new instance, constructed without arguments, while the caught one is being
  handled.\<close>

definition Ech1d_init ::
  "pyobj list option \<Rightarrow> string option \<Rightarrow> string list option \<Rightarrow> string option \<Rightarrow> bool
     \<Rightarrow> filesystem \<Rightarrow> Spec1d list \<Rightarrow> event list \<times> exn option \<times> Spec1d list" where
  "Ech1d_init speclist echfile filelist informat verbose fs self =
     (case speclist of
        Some sl \<Rightarrow> speclist_loop sl self
      | None \<Rightarrow>
          (case echfile of
             Some ef \<Rightarrow>
               (let out = (if verbose
                           then [Print (''Opening echelle spectrum file: '' @ ef)] else [])
                          @ [FitsOpen ef]
                in case pf_open fs ef of
                     Inl e \<Rightarrow>
                       (if exn_class e = IOError
                        then (out, Some (Exn IOError [] (Some e)), self)
                        else (out, Some e, self))
                   | Inr hdu \<Rightarrow>
                       (case hdu_loop hdu [1..<length hdu] self of
                          (x, self') \<Rightarrow> (out, x, self')))
           | None \<Rightarrow>
               ([Print '''',
                 Print ''NOTE: filelist option is not implemented for input'',
                 Print ''''], None, self)))"

text \<open>The expression \<open>Ech1d(speclist, echfile, filelist, informat, verbose)\<close>: a fresh
  empty list is initialised; the caller receives it only if \<open>__init__\<close> returns, and
  otherwise only the exception.\<close>

definition Ech1d_new ::
  "pyobj list option \<Rightarrow> string option \<Rightarrow> string list option \<Rightarrow> string option \<Rightarrow> bool
     \<Rightarrow> filesystem \<Rightarrow> event list \<times> (exn + Spec1d list)" where
  "Ech1d_new speclist echfile filelist informat verbose fs =
     (case Ech1d_init speclist echfile filelist informat verbose fs [] of
        (out, Some e, self) \<Rightarrow> (out, Inl e)
      | (out, None, self) \<Rightarrow> (out, Inr self))"

subsection \<open>Plotting all orders\<close>

text \<open>\<open>spec['wav'].min()\<close> and \<open>.max()\<close>: numpy raises \<open>ValueError\<close> on an empty
  column and returns NaN when the column holds one.\<close>

fun col_min :: "column \<Rightarrow> exn + pyfloat" where
  "col_min [] = Inl (bare ValueError)"
| "col_min (x # xs) = Inr (fold np_min xs x)"

fun col_max :: "column \<Rightarrow> exn + pyfloat" where
  "col_max [] = Inl (bare ValueError)"
| "col_max (x # xs) = Inr (fold np_max xs x)"

text \<open>The variables of \<open>plot_all\<close> that live across iterations.\<close>

record plot_vars =
  title :: pytitle
  showz :: bool
  wmin :: pyfloat
  wmax :: pyfloat
  i :: nat

text \<open>
  The collaborator's \<open>mark_lines(linetype, z, showz, usesmooth)\<close> is a parameter: for a
  spectrum and the four arguments it tells which exception the call raises, if any.
  The \<open>try\<close> block catches \<open>NameError\<close> only and then calls again with \<open>'strongem'\<close>;
  an exception of that second call is raised while the \<open>NameError\<close> is being handled.
\<close>

type_synonym marker = "Spec1d \<Rightarrow> string \<Rightarrow> pyfloat \<Rightarrow> bool \<Rightarrow> bool \<Rightarrow> exn option"

definition mark_step ::
  "marker \<Rightarrow> pyfloat option \<Rightarrow> string \<Rightarrow> int option \<Rightarrow> bool \<Rightarrow> Spec1d
     \<Rightarrow> event list \<times> exn option" where
  "mark_step mark_lines z linetype smo showz' spec =
     (case z of
        None \<Rightarrow> ([], None)
      | Some zv \<Rightarrow>
          (let usesmooth = (smo \<noteq> None)
           in case mark_lines spec linetype zv showz' usesmooth of
                None \<Rightarrow> ([Mark_lines spec linetype zv showz' usesmooth], None)
              | Some e \<Rightarrow>
                  (if exn_class e = NameError
                   then ([Mark_lines spec linetype zv showz' usesmooth,
                          Mark_lines spec ''strongem'' zv showz' usesmooth],
                         map_option (\<lambda>e'. during e' e)
                           (mark_lines spec ''strongem'' zv showz' usesmooth))
                   else ([Mark_lines spec linetype zv showz' usesmooth], Some e))))"

text \<open>The body of \<open>for count, spec in enumerate(self)\<close>. \<open>len(spec) - 1\<close> is an integer
  subtraction: it is \<open>-1\<close> for a spectrum without samples.\<close>

definition plot_body ::
  "marker \<Rightarrow> string \<Rightarrow> pyfloat option \<Rightarrow> string \<Rightarrow> int option \<Rightarrow> bool \<Rightarrow> kwargs
     \<Rightarrow> nat \<Rightarrow> Spec1d \<Rightarrow> plot_vars \<Rightarrow> event list \<times> (exn + plot_vars)" where
  "plot_body mark_lines mode z linetype smo verbose kw count spec v =
     (let v1 = (if int count = int (len spec) - 1
                then v\<lparr>title := (if title v = TitleNone then Title ''Extracted Spectrum''
                                  else title v),
                       showz := True\<rparr>
                else v\<lparr>title := TitleFalse, showz := False\<rparr>);
          ev1 = (case smo of
                   Some w \<Rightarrow> [Smooth spec w mode (title v1) verbose kw]
                 | None \<Rightarrow> [Plot spec mode (title v1) kw])
      in case mark_step mark_lines z linetype smo (showz v1) spec of
           (ev2, Some e) \<Rightarrow> (ev1 @ ev2, Inl e)
         | (ev2, None) \<Rightarrow>
             (case col_min (wav spec) of
                Inl e \<Rightarrow> (ev1 @ ev2, Inl e)
              | Inr lo \<Rightarrow>
                  (case col_max (wav spec) of
                     Inl e \<Rightarrow> (ev1 @ ev2, Inl e)
                   | Inr hi \<Rightarrow>
                       (ev1 @ ev2,
                        Inr (v1\<lparr>wmin := (if py_less lo (wmin v1) then lo else wmin v1),
                                 wmax := (if py_less (wmax v1) hi then hi else wmax v1),
                                 i := i v1 + 1\<rparr>)))))"

fun plot_loop ::
  "marker \<Rightarrow> string \<Rightarrow> pyfloat option \<Rightarrow> string \<Rightarrow> int option \<Rightarrow> bool \<Rightarrow> kwargs
     \<Rightarrow> nat \<Rightarrow> Spec1d list \<Rightarrow> plot_vars \<Rightarrow> event list \<times> (exn + plot_vars)" where
  "plot_loop mark_lines mode z linetype smo verbose kw count [] v = ([], Inr v)"
| "plot_loop mark_lines mode z linetype smo verbose kw count (spec # rest) v =
     (case plot_body mark_lines mode z linetype smo verbose kw count spec v of
        (ev, Inl e) \<Rightarrow> (ev, Inl e)
      | (ev, Inr v') \<Rightarrow>
          (case plot_loop mark_lines mode z linetype smo verbose kw (Suc count) rest v' of
             (ev', r) \<Rightarrow> (ev @ ev', r)))"

text \<open>\<open>Ech1d.plot_all\<close>; \<open>plotmode\<close> is accepted and never read. The starting values
  are \<open>wmin = 1.e12\<close> and \<open>wmax = 0.\<close>.\<close>

definition plot_all ::
  "marker \<Rightarrow> Spec1d list \<Rightarrow> string \<Rightarrow> string \<Rightarrow> pytitle \<Rightarrow> pyfloat option \<Rightarrow> bool \<Rightarrow> string
     \<Rightarrow> int option \<Rightarrow> bool \<Rightarrow> kwargs \<Rightarrow> event list \<times> exn option" where
  "plot_all mark_lines self plotmode mode title0 z showz0 linetype smo verbose kw =
     (case plot_loop mark_lines mode z linetype smo verbose kw 0 self
             \<lparr>title = title0, showz = showz0,
              wmin = Val (Fin (10 ^ 12)), wmax = Val (Fin 0), i = 0\<rparr> of
        (ev, Inl e) \<Rightarrow> (ev, Some e)
      | (ev, Inr v) \<Rightarrow> (ev @ [Xlim (wmin v) (wmax v)], None))"

subsection \<open>Saving all orders\<close>

text \<open>
  \<open>hdulist.writeto(outfile, overwrite=...)\<close>: the library refuses to replace an
  existing file unless \<open>overwrite\<close> is set, and the operating system refuses a path at
  which no file can be created (a missing directory, missing rights). Which paths can be
  written is a parameter, \<open>can_create\<close>. When the call raises, no file changes.
\<close>

definition writeto ::
  "(string \<Rightarrow> bool) \<Rightarrow> filesystem \<Rightarrow> string \<Rightarrow> hdu list \<Rightarrow> bool \<Rightarrow> exn option \<times> filesystem" where
  "writeto can_create fs outfile hdulist overwrite =
     (if fs outfile \<noteq> None \<and> \<not> overwrite then (Some (Exn IOError [outfile] None), fs)
      else if \<not> can_create outfile then (Some (Exn IOError [outfile] None), fs)
      else (None, fs(outfile \<mapsto> hdulist)))"

text \<open>\<open>Ech1d.save_multi\<close>: what is printed, the exception if any, and the files after.
  There is no handler around the write.\<close>

definition save_multi ::
  "(string \<Rightarrow> bool) \<Rightarrow> Spec1d list \<Rightarrow> string \<Rightarrow> string \<Rightarrow> filesystem
     \<Rightarrow> event list \<times> exn option \<times> filesystem" where
  "save_multi can_create self outroot outformat fs =
     (if outformat = ''multitab'' then
        (let phdu = PrimaryHDU;
             lll = map (\<lambda>spec. table_to_hdu (Table spec)) self;
             hdulist = [phdu] @ lll;
             outfile = outroot @ ''.fits''
         in ([], writeto can_create fs outfile hdulist True))
      else ([Print '''', Print ''Not yet implemented yet'', Print ''''], None, fs))"


subsection \<open>Auxiliary notions and example data\<close>

text \<open>The leading \<open>Spec1d\<close> instances of a list of objects, up to its first element of
  another type: what \<open>self\<close> holds when the type check fails.\<close>

fun conforming_prefix :: "pyobj list \<Rightarrow> Spec1d list" where
  "conforming_prefix [] = []"
| "conforming_prefix (Spec1dObj s # rest) = s # conforming_prefix rest"
| "conforming_prefix (OtherObj d # rest) = []"



text \<open>A finite float.\<close>

definition num :: "real \<Rightarrow> pyfloat" where
  "num r = Val (Fin r)"

text \<open>Two orders of two samples each, with wavelength ranges 4000 to 5000 and 5000 to
  6000; an order of five samples; an order far beyond the optical range; an order with a
  NaN wavelength.\<close>

definition order_blue :: Spec1d where
  "order_blue = \<lparr>wav = [num 4000, num 5000], flux = [num 1, num 2], var = None, sky = None\<rparr>"

definition order_red :: Spec1d where
  "order_red = \<lparr>wav = [num 5000, num 6000], flux = [num 3, num 4],
                 var = Some [num 1, num 1], sky = None\<rparr>"

definition order_five :: Spec1d where
  "order_five = \<lparr>wav = [num 1, num 2, num 3, num 4, num 5],
                  flux = [num 0, num 0, num 0, num 0, num 0], var = None, sky = None\<rparr>"


definition order_nan :: Spec1d where
  "order_nan = \<lparr>wav = [NaN, num 5000], flux = [num 1, num 1], var = None, sky = None\<rparr>"

text \<open>Collaborators: one that knows the line style \<open>'strongem'\<close> only and raises
  \<open>NameError\<close> for any other, one that raises \<open>KeyError\<close> instead, and one that knows
  every style.\<close>

definition strongem_only :: marker where
  "strongem_only spec linetype zv sz us =
     (if linetype = ''strongem'' then None else Some (Exn NameError [linetype] None))"

definition strongem_or_keyerror :: marker where
  "strongem_or_keyerror spec linetype zv sz us =
     (if linetype = ''strongem'' then None else Some (Exn KeyError [linetype] None))"

definition any_style :: marker where
  "any_style spec linetype zv sz us = None"

text \<open>A process that can create files in its working directory only.\<close>

definition cwd_only :: "string \<Rightarrow> bool" where
  "cwd_only path = (CHR ''/'' \<notin> set path)"

section \<open>Properties of the constructor\<close>

lemma speclist_loop_conforming:
  "speclist_loop (map Spec1dObj specs) self = ([], None, self @ specs)"
  by (induction specs arbitrary: self) simp_all

lemma speclist_loop_result:
  "speclist_loop sl self =
     (if list_all isinstance_Spec1d sl then ([], None, self @ conforming_prefix sl)
      else (type_notice, Some (bare TypeError), self @ conforming_prefix sl))"
proof (induction sl arbitrary: self)
  case Nil
  then show ?case by simp
next
  case (Cons x sl)
  then show ?case by (cases x) simp_all
qed

lemma conforming_prefix_map: "conforming_prefix (map Spec1dObj specs) = specs"
  by (induction specs) simp_all

text \<open>The loop over \<open>range(k, len(hdu))\<close> appends the spectra of the records from
  position \<open>k\<close> on, in their order, when each of them converts.\<close>

lemma hdu_loop_from:
  "list_all2 (\<lambda>h s. Spec1d_hdu h = Inr s) (drop k hdu) specs \<Longrightarrow>
   hdu_loop hdu [k..<length hdu] self = (None, self @ specs)"
proof (induction specs arbitrary: k self)
  case Nil
  then have "length hdu \<le> k" by simp
  then show ?case by simp
next
  case (Cons s specs)
  from Cons.prems obtain h rest where d: "drop k hdu = h # rest"
    and h: "Spec1d_hdu h = Inr s" and r: "list_all2 (\<lambda>h s. Spec1d_hdu h = Inr s) rest specs"
    by (auto simp: list_all2_Cons2)
  from d have k: "k < length hdu" by (metis drop_all list.distinct(1) not_le)
  from d k have hk: "hdu ! k = h" by (metis Cons_nth_drop_Suc list.inject)
  from d k have dk: "drop (Suc k) hdu = rest" by (metis Cons_nth_drop_Suc list.inject)
  have "hdu_loop hdu [Suc k..<length hdu] (self @ [s]) = (None, (self @ [s]) @ specs)"
    using Cons.IH [of "Suc k" "self @ [s]"] r dk by simp
  then show ?case using k hk h by (simp add: upt_conv_Cons)
qed

lemma Spec1d_hdu_Table: "Spec1d_hdu (table_to_hdu (Table s)) = Inr s"
  by (cases "var s"; cases "sky s") (simp_all add: Spec1d_hdu_def table_to_hdu_def Table_def)

lemma Table_columns:
  "map_of (Table s) ''wav'' = Some (wav s)" "map_of (Table s) ''flux'' = Some (flux s)"
  by (simp_all add: Table_def)

text \<open>
  C4. Construction keeps order and length. From a list of \<open>Spec1d\<close> instances the
  collection is that list, element for element. From a file of \<open>N + 1\<close> records whose
  records after the first each hold one order, the collection holds exactly \<open>N\<close>
  spectra, the \<open>k\<close>-th built from record \<open>k + 1\<close>; nothing is sorted or reordered.
\<close>

theorem Ech1d_new_keeps_order:
  "Ech1d_new (Some (map Spec1dObj specs)) echfile filelist informat verbose fs = ([], Inr specs)
   \<and> (ef \<noteq> '''' \<and> fs ef = Some hdul \<and> length hdul = N + 1
        \<and> list_all2 (\<lambda>h s. Spec1d_hdu h = Inr s) (tl hdul) orders
      \<longrightarrow> snd (Ech1d_new None (Some ef) filelist informat verbose fs) = Inr orders
          \<and> length orders = N
          \<and> (\<forall>k < N. Spec1d_hdu (hdul ! (k + 1)) = Inr (orders ! k)))"
proof (intro conjI impI)
  show "Ech1d_new (Some (map Spec1dObj specs)) echfile filelist informat verbose fs
          = ([], Inr specs)"
    by (simp add: Ech1d_new_def Ech1d_init_def speclist_loop_conforming)
next
  assume a: "ef \<noteq> '''' \<and> fs ef = Some hdul \<and> length hdul = N + 1
        \<and> list_all2 (\<lambda>h s. Spec1d_hdu h = Inr s) (tl hdul) orders"
  then have l2: "list_all2 (\<lambda>h s. Spec1d_hdu h = Inr s) (drop 1 hdul) orders"
    by (simp add: drop_Suc)
  then have "hdu_loop hdul [1..<length hdul] [] = (None, [] @ orders)"
    by (rule hdu_loop_from)
  with a show "snd (Ech1d_new None (Some ef) filelist informat verbose fs) = Inr orders"
    by (simp add: Ech1d_new_def Ech1d_init_def pf_open_def)
  from a l2 show len: "length orders = N"
    by (auto dest: list_all2_lengthD)
  from a l2 len show "\<forall>k < N. Spec1d_hdu (hdul ! (k + 1)) = Inr (orders ! k)"
    by (auto simp: list_all2_conv_all_nth)
qed

text \<open>C4 at a list of two orders and at a file of three records.\<close>

theorem Ech1d_new_keeps_order_witness:
  "Ech1d_new (Some [Spec1dObj order_red, Spec1dObj order_blue]) None None None True
       [''e.fits'' \<mapsto> [PrimaryHDU, BinTableHDU (Table order_red), BinTableHDU (Table order_blue)]]
     = ([], Inr [order_red, order_blue])
   \<and> snd (Ech1d_new None (Some ''e.fits'') None None True
            [''e.fits'' \<mapsto> [PrimaryHDU, BinTableHDU (Table order_red), BinTableHDU (Table order_blue)]])
       = Inr [order_red, order_blue]
   \<and> length [order_red, order_blue] = 2"
proof -
  let ?hdul = "[PrimaryHDU, BinTableHDU (Table order_red), BinTableHDU (Table order_blue)]"
  let ?fs = "[''e.fits'' \<mapsto> ?hdul]"
  have h: "''e.fits'' \<noteq> '''' \<and> ?fs ''e.fits'' = Some ?hdul \<and> length ?hdul = 2 + 1
        \<and> list_all2 (\<lambda>h s. Spec1d_hdu h = Inr s) (tl ?hdul) [order_red, order_blue]"
    using Spec1d_hdu_Table by (simp add: table_to_hdu_def)
  from Ech1d_new_keeps_order [where specs = "[order_red, order_blue]" and echfile = None
      and filelist = None and informat = None and verbose = True and fs = ?fs
      and ef = "''e.fits''" and hdul = ?hdul and N = 2 and orders = "[order_red, order_blue]"] h
  show ?thesis by simp
qed

text \<open>
  C5. When the list holds an element that is not a \<open>Spec1d\<close> instance, the constructor
  call yields the notice and a \<open>TypeError\<close> and no collection. \<open>__init__\<close> raises at the
  first such element: at that moment \<open>self\<close> holds the instances before it, and that
  list is not handed to the caller.
\<close>

theorem Ech1d_new_type_error:
  assumes "\<exists>x \<in> set speclist. \<not> isinstance_Spec1d x"
  shows "Ech1d_new (Some speclist) echfile filelist informat verbose fs
           = (type_notice, Inl (bare TypeError))
       \<and> Ech1d_init (Some speclist) echfile filelist informat verbose fs []
           = (type_notice, Some (bare TypeError), conforming_prefix speclist)"
proof -
  from assms have "\<not> list_all isinstance_Spec1d speclist"
    by (simp add: list_all_iff)
  then show ?thesis
    by (simp add: Ech1d_new_def Ech1d_init_def speclist_loop_result)
qed

text \<open>C5 at a list whose second element is not a spectrum.\<close>

theorem Ech1d_new_type_error_witness:
  "Ech1d_new (Some [Spec1dObj order_blue, OtherObj ''42'', Spec1dObj order_red])
      None None None True Map.empty
     = (type_notice, Inl (bare TypeError))
   \<and> Ech1d_init (Some [Spec1dObj order_blue, OtherObj ''42'', Spec1dObj order_red])
      None None None True Map.empty []
     = (type_notice, Some (bare TypeError), [order_blue])"
proof -
  have h: "\<exists>x \<in> set [Spec1dObj order_blue, OtherObj ''42'', Spec1dObj order_red].
             \<not> isinstance_Spec1d x"
    by simp
  from Ech1d_new_type_error [where echfile = None and filelist = None and informat = None
      and verbose = True and fs = Map.empty, OF h]
  show ?thesis by simp
qed

text \<open>
  C8, as the code has it. When opening the file at the given path fails with an
  exception \<open>e\<close>, the file has been tried once and the caller receives no collection. If
  \<open>e\<close> is an \<open>IOError\<close>, the handler \<open>except IOError: raise IOError\<close> raises a new
  \<open>IOError\<close> in its place, constructed without arguments, to which \<open>e\<close> is attached only
  as the context it was raised in. An exception of another class, such as the
  \<open>ValueError\<close> for the empty file name, is not caught and reaches the caller as it is.
\<close>

theorem Ech1d_new_open_failure:
  assumes "pf_open fs ef = Inl e"
  shows "Ech1d_new None (Some ef) filelist informat verbose fs =
     ((if verbose then [Print (''Opening echelle spectrum file: '' @ ef)] else [])
        @ [FitsOpen ef],
      Inl (if exn_class e = IOError then Exn IOError [] (Some e) else e))"
  using assms by (simp add: Ech1d_new_def Ech1d_init_def)

text \<open>C8 as stated fails: the error that reaches the caller is not the error of the
  library but a new one without its arguments.\<close>

theorem Ech1d_new_open_failure_counterexample:
  "pf_open Map.empty ''missing.fits'' = Inl (Exn IOError [''missing.fits''] None)
   \<and> snd (Ech1d_new None (Some ''missing.fits'') None None True Map.empty)
       = Inl (Exn IOError [] (Some (Exn IOError [''missing.fits''] None)))
   \<and> snd (Ech1d_new None (Some ''missing.fits'') None None True Map.empty)
       \<noteq> Inl (Exn IOError [''missing.fits''] None)"
  by (simp add: Ech1d_new_def Ech1d_init_def pf_open_def)

text \<open>C8, as the code has it, at a missing file.\<close>

theorem Ech1d_new_open_failure_witness:
  "pf_open Map.empty ''missing.fits'' = Inl (Exn IOError [''missing.fits''] None) \<and>
   Ech1d_new None (Some ''missing.fits'') None None True Map.empty =
     ([Print ''Opening echelle spectrum file: missing.fits'', FitsOpen ''missing.fits''],
      Inl (Exn IOError [] (Some (Exn IOError [''missing.fits''] None))))"
proof -
  have h: "pf_open Map.empty ''missing.fits'' = Inl (Exn IOError [''missing.fits''] None)"
    by (simp add: pf_open_def)
  from h Ech1d_new_open_failure [where filelist = None and informat = None and verbose = True,
      OF h]
  show ?thesis by simp
qed

text \<open>The empty file name: the library's \<open>ValueError\<close> passes the handler unchanged.\<close>

lemma Ech1d_new_empty_name:
  "Ech1d_new None (Some '''') filelist informat False fs = ([FitsOpen ''''], Inl (bare ValueError))"
  by (simp add: Ech1d_new_def Ech1d_init_def pf_open_def bare_def)

text \<open>
  C10. Source precedence. With both a list and a file path the collection is built from
  the list alone: it is the list itself when every element is a \<open>Spec1d\<close> instance (and
  the type error otherwise), whatever the path and the files are, and no file is opened.
  With neither, the notice is printed and the collection is empty, with or without a file
  list. The file list is never read: no result depends on it.
\<close>

theorem Ech1d_new_precedence:
  "Ech1d_new (Some (map Spec1dObj specs)) (Some ef) filelist informat verbose fs
     = ([], Inr specs)
   \<and> Ech1d_new (Some sl) (Some ef) filelist informat verbose fs
     = (if list_all isinstance_Spec1d sl then ([], Inr (conforming_prefix sl))
        else (type_notice, Inl (bare TypeError)))
   \<and> Ech1d_new (Some sl) (Some ef) filelist informat verbose fs
     = Ech1d_new (Some sl) None filelist' informat' verbose' fs'
   \<and> (\<forall>name. FitsOpen name
          \<notin> set (fst (Ech1d_new (Some sl) (Some ef) filelist informat verbose fs)))
   \<and> Ech1d_new None None filelist informat verbose fs
       = ([Print '''', Print ''NOTE: filelist option is not implemented for input'', Print ''''],
          Inr [])
   \<and> Ech1d_new speclist echfile filelist informat verbose fs
       = Ech1d_new speclist echfile None informat verbose fs"
proof (intro conjI)
  show "Ech1d_new (Some (map Spec1dObj specs)) (Some ef) filelist informat verbose fs
     = ([], Inr specs)"
    by (simp add: Ech1d_new_def Ech1d_init_def speclist_loop_conforming)
  show "Ech1d_new (Some sl) (Some ef) filelist informat verbose fs
     = (if list_all isinstance_Spec1d sl then ([], Inr (conforming_prefix sl))
        else (type_notice, Inl (bare TypeError)))"
    by (simp add: Ech1d_new_def Ech1d_init_def speclist_loop_result)
  show "Ech1d_new (Some sl) (Some ef) filelist informat verbose fs
     = Ech1d_new (Some sl) None filelist' informat' verbose' fs'"
    by (simp add: Ech1d_new_def Ech1d_init_def)
  show "\<forall>name. FitsOpen name
          \<notin> set (fst (Ech1d_new (Some sl) (Some ef) filelist informat verbose fs))"
    by (simp add: Ech1d_new_def Ech1d_init_def speclist_loop_result type_notice_def)
  show "Ech1d_new None None filelist informat verbose fs
       = ([Print '''', Print ''NOTE: filelist option is not implemented for input'', Print ''''],
          Inr [])"
    by (simp add: Ech1d_new_def Ech1d_init_def)
  show "Ech1d_new speclist echfile filelist informat verbose fs
       = Ech1d_new speclist echfile None informat verbose fs"
    by (simp add: Ech1d_new_def Ech1d_init_def)
qed

text \<open>C10 at two orders, the path of a file that holds one other order, and a file
  list.\<close>

theorem Ech1d_new_precedence_witness:
  "Ech1d_new (Some [Spec1dObj order_red, Spec1dObj order_blue]) (Some ''e.fits'')
       (Some [''a.txt'']) None True [''e.fits'' \<mapsto> [PrimaryHDU, BinTableHDU (Table order_five)]]
     = ([], Inr [order_red, order_blue])
   \<and> Ech1d_new None None (Some [''a.txt'']) None True
       [''e.fits'' \<mapsto> [PrimaryHDU, BinTableHDU (Table order_five)]]
     = ([Print '''', Print ''NOTE: filelist option is not implemented for input'', Print ''''],
        Inr [])"
proof -
  let ?fs = "[''e.fits'' \<mapsto> [PrimaryHDU, BinTableHDU (Table order_five)]]"
  note t = Ech1d_new_precedence [where specs = "[order_red, order_blue]" and ef = "''e.fits''"
      and filelist = "Some [''a.txt'']" and informat = None and verbose = True
      and fs = ?fs and sl = "[]" and filelist' = None and informat' = None and verbose' = True
      and fs' = Map.empty and speclist = None and echfile = None]
  from t have "Ech1d_new (Some (map Spec1dObj [order_red, order_blue])) (Some ''e.fits'')
       (Some [''a.txt'']) None True ?fs = ([], Inr [order_red, order_blue])"
    by (rule conjunct1)
  then have a: "Ech1d_new (Some [Spec1dObj order_red, Spec1dObj order_blue]) (Some ''e.fits'')
       (Some [''a.txt'']) None True ?fs = ([], Inr [order_red, order_blue])"
    by simp
  from t have b: "Ech1d_new None None (Some [''a.txt'']) None True ?fs
     = ([Print '''', Print ''NOTE: filelist option is not implemented for input'', Print ''''],
        Inr [])"
    by blast
  from a b show ?thesis by (rule conjI)
qed

section \<open>Properties of \<open>save_multi\<close>\<close>

text \<open>
  C2, as the code has it. In the format \<open>'multitab'\<close>, when a file can be created at the
  path \<open>outroot.fits\<close>, a collection of \<open>N\<close> orders is written to that one path, every
  other file staying as it is, whether or not a file was there before. The file has
  \<open>N + 1\<close> records: the empty primary record, then the table of order \<open>k\<close> at position
  \<open>k + 1\<close>, each with a wavelength and a flux column. Nothing is printed or raised. When
  no file can be created at the path, the error of the write leaves \<open>save_multi\<close> and
  no file changes.
\<close>

theorem save_multi_multitab:
  "(can_create (outroot @ ''.fits'') \<longrightarrow>
      save_multi can_create self outroot ''multitab'' fs =
        ([], None,
         fs(outroot @ ''.fits'' \<mapsto> PrimaryHDU # map (\<lambda>spec. BinTableHDU (Table spec)) self))
      \<and> length (PrimaryHDU # map (\<lambda>spec. BinTableHDU (Table spec)) self) = length self + 1
      \<and> (\<forall>k < length self.
           (PrimaryHDU # map (\<lambda>spec. BinTableHDU (Table spec)) self) ! (k + 1)
             = BinTableHDU (Table (self ! k))
           \<and> map_of (Table (self ! k)) ''wav'' = Some (wav (self ! k))
           \<and> map_of (Table (self ! k)) ''flux'' = Some (flux (self ! k))))
   \<and> (\<not> can_create (outroot @ ''.fits'') \<longrightarrow>
        save_multi can_create self outroot ''multitab'' fs =
          ([], Some (Exn IOError [outroot @ ''.fits''] None), fs))"
  by (simp add: save_multi_def writeto_def table_to_hdu_def Table_columns)

text \<open>C2 as stated fails for a path in a directory that does not exist: \<open>save_multi\<close>
  raises and there is no file at the path afterwards.\<close>

theorem save_multi_multitab_counterexample:
  "save_multi cwd_only [order_blue, order_red] ''nodir/out'' ''multitab'' Map.empty
     = ([], Some (Exn IOError [''nodir/out.fits''] None), Map.empty)
   \<and> snd (snd (save_multi cwd_only [order_blue, order_red] ''nodir/out'' ''multitab'' Map.empty))
       ''nodir/out.fits'' = None"
  by (simp add: save_multi_def writeto_def cwd_only_def)

text \<open>C2, as the code has it, at two orders, written over an existing file.\<close>

theorem save_multi_multitab_witness:
  "cwd_only (''out'' @ ''.fits'')
   \<and> save_multi cwd_only [order_blue, order_red] ''out'' ''multitab'' [''out.fits'' \<mapsto> [PrimaryHDU]] =
     ([], None,
      [''out.fits'' \<mapsto> [PrimaryHDU, BinTableHDU (Table order_blue), BinTableHDU (Table order_red)]])
   \<and> (1::nat) < length [order_blue, order_red]
   \<and> [PrimaryHDU, BinTableHDU (Table order_blue), BinTableHDU (Table order_red)] ! 2
        = BinTableHDU (Table order_red)
   \<and> map_of (Table order_red) ''wav'' = Some [num 5000, num 6000]
   \<and> map_of (Table order_red) ''flux'' = Some [num 3, num 4]"
proof -
  let ?c = "[order_blue, order_red]"
  have w: "cwd_only (''out'' @ ''.fits'')" by (simp add: cwd_only_def)
  note t = save_multi_multitab [of cwd_only "''out''" ?c "[''out.fits'' \<mapsto> [PrimaryHDU]]"]
  have k: "(1::nat) < length ?c" by simp
  from t w have a: "save_multi cwd_only ?c ''out'' ''multitab'' [''out.fits'' \<mapsto> [PrimaryHDU]] =
     ([], None,
      [''out.fits'' \<mapsto> [PrimaryHDU, BinTableHDU (Table order_blue), BinTableHDU (Table order_red)]])"
    by simp
  from t w k have "(PrimaryHDU # map (\<lambda>spec. BinTableHDU (Table spec)) ?c) ! (1 + 1)
          = BinTableHDU (Table (?c ! 1))
        \<and> map_of (Table (?c ! 1)) ''wav'' = Some (wav (?c ! 1))
        \<and> map_of (Table (?c ! 1)) ''flux'' = Some (flux (?c ! 1))"
    by blast
  then have b: "[PrimaryHDU, BinTableHDU (Table order_blue), BinTableHDU (Table order_red)] ! 2
        = BinTableHDU (Table order_red)
      \<and> map_of (Table order_red) ''wav'' = Some (wav order_red)
      \<and> map_of (Table order_red) ''flux'' = Some (flux order_red)"
    by simp
  have "wav order_red = [num 5000, num 6000]" "flux order_red = [num 3, num 4]"
    by (simp_all add: order_red_def)
  with a b k w show ?thesis by simp
qed

text \<open>
  C3. Round trip. When \<open>save_multi\<close> has written the collection in the format
  \<open>'multitab'\<close> (the call raised nothing), constructing a collection from the file it
  wrote gives back the collection that was saved: as many orders, in the same order,
  each with the same columns.
\<close>

theorem save_multi_roundtrip:
  assumes "fst (snd (save_multi can_create self outroot ''multitab'' fs)) = None"
  shows "snd (Ech1d_new None (Some (outroot @ ''.fits'')) filelist informat verbose
           (snd (snd (save_multi can_create self outroot ''multitab'' fs)))) = Inr self"
proof -
  let ?hdul = "PrimaryHDU # map (\<lambda>spec. table_to_hdu (Table spec)) self"
  from assms have w: "can_create (outroot @ ''.fits'')"
    by (simp add: save_multi_def writeto_def Let_def split: if_splits)
  have "list_all2 (\<lambda>h s. Spec1d_hdu h = Inr s) (drop 1 ?hdul) self"
    by (simp add: list_all2_map1 Spec1d_hdu_Table list_all2_same)
  then have "hdu_loop ?hdul [1..<length ?hdul] [] = (None, [] @ self)"
    by (rule hdu_loop_from)
  with w show ?thesis
    by (simp add: Ech1d_new_def Ech1d_init_def save_multi_def writeto_def pf_open_def)
qed

text \<open>C3 at two orders.\<close>

theorem save_multi_roundtrip_witness:
  "fst (snd (save_multi cwd_only [order_blue, order_red] ''out'' ''multitab'' Map.empty)) = None
   \<and> snd (Ech1d_new None (Some ''out.fits'') None None True
         (snd (snd (save_multi cwd_only [order_blue, order_red] ''out'' ''multitab'' Map.empty))))
      = Inr [order_blue, order_red]"
proof -
  have h: "fst (snd (save_multi cwd_only [order_blue, order_red] ''out'' ''multitab'' Map.empty))
             = None"
    by (simp add: save_multi_def writeto_def cwd_only_def)
  from h save_multi_roundtrip [where filelist = None and informat = None and verbose = True,
      OF h]
  show ?thesis by simp
qed

text \<open>
  C7. With any format other than \<open>'multitab'\<close>, \<open>save_multi\<close> prints its notice, leaves
  every file as it is and raises nothing.
\<close>

theorem save_multi_other_format:
  "outformat \<noteq> ''multitab'' \<Longrightarrow>
   save_multi can_create self outroot outformat fs =
     ([Print '''', Print ''Not yet implemented yet'', Print ''''], None, fs)"
  by (simp add: save_multi_def)

text \<open>C7 at the format \<open>'text'\<close>.\<close>

theorem save_multi_other_format_witness:
  "''text'' \<noteq> ''multitab'' \<and>
   save_multi cwd_only [order_blue, order_red] ''out'' ''text'' Map.empty =
     ([Print '''', Print ''Not yet implemented yet'', Print ''''], None, Map.empty)"
proof -
  have h: "''text'' \<noteq> ''multitab''" by simp
  from h save_multi_other_format [OF h] show ?thesis by simp
qed

section \<open>Properties of \<open>plot_all\<close>\<close>

lemma less_xreal_simps [simp]:
  "Fin a < Fin b \<longleftrightarrow> a < b"
  "NegInf < Fin a" "Fin a < PosInf" "NegInf < PosInf"
  "\<not> Fin a < NegInf" "\<not> PosInf < y" "\<not> x < NegInf"
  by (cases x; cases y; auto simp: less_xreal_def)+

















text \<open>A NaN among the wavelengths of an order makes both comparisons false, so that
  order leaves the limits as they are.\<close>

lemma plot_all_nan:
  "plot_all any_style [order_nan] ''single'' ''input'' TitleNone None True ''strongem''
     None False []
   = ([Plot order_nan ''input'' TitleFalse [], Xlim (num (10 ^ 12)) (num 0)], None)"
  by (simp add: plot_all_def plot_body_def mark_step_def len_def order_nan_def num_def)


text \<open>The loop over a collection in two parts is the loop over the first part and then,
  unless that raised, the loop over the second from the count and variables reached.\<close>

lemma plot_loop_append:
  "plot_loop ml mode z linetype smo verbose kw count (xs @ ys) v =
     (case plot_loop ml mode z linetype smo verbose kw count xs v of
        (ev, Inl e) \<Rightarrow> (ev, Inl e)
      | (ev, Inr v') \<Rightarrow>
          (case plot_loop ml mode z linetype smo verbose kw (count + length xs) ys v' of
             (ev', r) \<Rightarrow> (ev @ ev', r)))"
  by (induction xs arbitrary: count v) (simp_all split: prod.splits sum.splits)

lemma mark_step_raises:
  assumes "us = (smo \<noteq> None)" and "ml spec linetype zv sz us = Some e"
  shows "mark_step ml (Some zv) linetype smo sz spec =
     (if exn_class e = NameError
      then ([Mark_lines spec linetype zv sz us, Mark_lines spec ''strongem'' zv sz us],
            map_option (\<lambda>e'. during e' e) (ml spec ''strongem'' zv sz us))
      else ([Mark_lines spec linetype zv sz us], Some e))"
  using assms by (cases smo) (simp_all add: mark_step_def)

text \<open>One order whose first \<open>mark_lines\<close> call raises \<open>e\<close>. If \<open>e\<close> is a \<open>NameError\<close>:
  the plot call, the two marking calls, and the outcome of the second call as the
  outcome of the marking. Otherwise: the plot call, the one marking call, and \<open>e\<close>.\<close>

lemma plot_body_mark_raises:
  assumes us: "us = (smo \<noteq> None)" and sz: "sz = (int count = int (len spec) - 1)"
    and fail: "ml spec linetype zv sz us = Some e"
  shows "\<exists>p. (exn_class e = NameError \<longrightarrow>
            fst (plot_body ml mode (Some zv) linetype smo verbose kw count spec v) =
              [p, Mark_lines spec linetype zv sz us, Mark_lines spec ''strongem'' zv sz us]
            \<and> (\<forall>e'. ml spec ''strongem'' zv sz us = Some e' \<longrightarrow>
                  snd (plot_body ml mode (Some zv) linetype smo verbose kw count spec v)
                    = Inl (during e' e))
            \<and> (ml spec ''strongem'' zv sz us = None \<and> wav spec \<noteq> [] \<longrightarrow>
                  (\<exists>v'. snd (plot_body ml mode (Some zv) linetype smo verbose kw count spec v)
                          = Inr v')))
         \<and> (exn_class e \<noteq> NameError \<longrightarrow>
              plot_body ml mode (Some zv) linetype smo verbose kw count spec v
                = ([p, Mark_lines spec linetype zv sz us], Inl e))"
proof (cases sz)
  case True
  with sz have c: "int count = int (len spec) - 1" by simp
  from fail True have f: "ml spec linetype zv True us = Some e" by simp
  note m = mark_step_raises [where ml = ml and sz = True, OF us f]
  from c True m show ?thesis
    unfolding plot_body_def Let_def
    by (cases smo; cases "wav spec"; cases "ml spec ''strongem'' zv True us";
        cases "exn_class e = NameError") simp_all
next
  case False
  with sz have c: "int count \<noteq> int (len spec) - 1" by simp
  from fail False have f: "ml spec linetype zv False us = Some e" by simp
  note m = mark_step_raises [where ml = ml and sz = False, OF us f]
  from c False m show ?thesis
    unfolding plot_body_def Let_def
    by (cases smo; cases "wav spec"; cases "ml spec ''strongem'' zv False us";
        cases "exn_class e = NameError") simp_all
qed

text \<open>
  C9, as the code has it. In \<open>plot_all\<close> with a redshift \<open>zv\<close>, take any order \<open>spec\<close> of
  the collection that the loop reaches (the orders \<open>pre\<close> before it were processed
  without an exception), with its flag \<open>sz\<close> and with \<open>us\<close> telling whether a smoothing
  width was given, and let the call of \<open>mark_lines\<close> with the requested line style raise
  the exception \<open>e\<close>.

  If \<open>e\<close> is a \<open>NameError\<close>, \<open>plot_all\<close> calls \<open>mark_lines\<close> again on that order with
  \<open>'strongem'\<close> and the same \<open>zv\<close>, \<open>sz\<close> and \<open>us\<close>, directly after the first call. The
  outcome of the second call decides: an exception raised by it leaves \<open>plot_all\<close> (with
  \<open>e\<close> as its context); if it raises none (and the order has a wavelength value) the
  order completes and the loop goes on, so \<open>e\<close> does not reach the caller.

  If \<open>e\<close> is of any other class, \<open>KeyError\<close> included, there is no second call and \<open>e\<close>
  itself leaves \<open>plot_all\<close>.
\<close>

theorem plot_all_mark_lines_fallback:
  assumes reach: "plot_loop ml mode (Some zv) linetype smo verbose kw 0 pre
                    \<lparr>title = title0, showz = showz0,
                     wmin = Val (Fin (10 ^ 12)), wmax = Val (Fin 0), i = 0\<rparr>
                  = (evs, Inr v)"
    and sz: "sz = (int (length pre) = int (len spec) - 1)"
    and us: "us = (smo \<noteq> None)"
    and fail: "ml spec linetype zv sz us = Some e"
  shows "\<exists>p.
      (exn_class e = NameError \<longrightarrow>
         (\<exists>rest. fst (plot_all ml (pre @ spec # post) plotmode mode title0 (Some zv) showz0
                        linetype smo verbose kw)
                  = evs @ [p, Mark_lines spec linetype zv sz us,
                           Mark_lines spec ''strongem'' zv sz us] @ rest)
         \<and> (\<forall>e'. ml spec ''strongem'' zv sz us = Some e' \<longrightarrow>
                plot_all ml (pre @ spec # post) plotmode mode title0 (Some zv) showz0
                   linetype smo verbose kw
                = (evs @ [p, Mark_lines spec linetype zv sz us,
                          Mark_lines spec ''strongem'' zv sz us], Some (during e' e)))
         \<and> (ml spec ''strongem'' zv sz us = None \<and> wav spec \<noteq> [] \<longrightarrow>
               (\<exists>v'. plot_loop ml mode (Some zv) linetype smo verbose kw 0 (pre @ [spec])
                        \<lparr>title = title0, showz = showz0,
                         wmin = Val (Fin (10 ^ 12)), wmax = Val (Fin 0), i = 0\<rparr>
                      = (evs @ [p, Mark_lines spec linetype zv sz us,
                                Mark_lines spec ''strongem'' zv sz us], Inr v'))))
      \<and> (exn_class e \<noteq> NameError \<longrightarrow>
           plot_all ml (pre @ spec # post) plotmode mode title0 (Some zv) showz0
              linetype smo verbose kw
           = (evs @ [p, Mark_lines spec linetype zv sz us], Some e))"
proof -
  let ?v0 = "\<lparr>title = title0, showz = showz0,
              wmin = Val (Fin (10 ^ 12)), wmax = Val (Fin 0), i = 0\<rparr>"
  let ?b = "plot_body ml mode (Some zv) linetype smo verbose kw (length pre) spec v"
  let ?M = "[Mark_lines spec linetype zv sz us, Mark_lines spec ''strongem'' zv sz us]"
  from plot_body_mark_raises [where ml = ml and mode = mode and verbose = verbose and kw = kw
      and v = v, OF us sz fail] obtain p where
    ev: "exn_class e = NameError \<Longrightarrow> fst ?b = p # ?M"
    and ex: "\<And>e'. exn_class e = NameError \<Longrightarrow> ml spec ''strongem'' zv sz us = Some e'
               \<Longrightarrow> snd ?b = Inl (during e' e)"
    and ok: "exn_class e = NameError \<Longrightarrow> ml spec ''strongem'' zv sz us = None
               \<Longrightarrow> wav spec \<noteq> [] \<Longrightarrow> \<exists>v'. snd ?b = Inr v'"
    and other: "exn_class e \<noteq> NameError
               \<Longrightarrow> ?b = ([p, Mark_lines spec linetype zv sz us], Inl e)"
    by blast
  have one: "plot_loop ml mode (Some zv) linetype smo verbose kw 0 (pre @ [spec]) ?v0
      = (evs @ fst ?b, snd ?b)"
    using reach by (cases ?b) (simp add: plot_loop_append split: sum.splits)
  have all: "plot_loop ml mode (Some zv) linetype smo verbose kw 0 (pre @ spec # post) ?v0
      = (case ?b of
           (ev, Inl e) \<Rightarrow> (evs @ ev, Inl e)
         | (ev, Inr v') \<Rightarrow>
             (case plot_loop ml mode (Some zv) linetype smo verbose kw (Suc (length pre)) post v' of
                (ev', r) \<Rightarrow> (evs @ ev @ ev', r)))"
    using reach by (simp add: plot_loop_append split: prod.splits sum.splits)
  have A: "\<exists>rest. fst (plot_all ml (pre @ spec # post) plotmode mode title0 (Some zv) showz0
                       linetype smo verbose kw) = evs @ (p # ?M) @ rest"
    if "exn_class e = NameError"
    using ev [OF that] unfolding plot_all_def all
    by (cases ?b) (auto split: prod.splits sum.splits)
  have B: "\<forall>e'. ml spec ''strongem'' zv sz us = Some e' \<longrightarrow>
      plot_all ml (pre @ spec # post) plotmode mode title0 (Some zv) showz0 linetype smo verbose kw
      = (evs @ (p # ?M), Some (during e' e))"
    if "exn_class e = NameError"
    using ev [OF that] ex [OF that] unfolding plot_all_def all
    by (cases ?b) (auto split: prod.splits sum.splits)
  have C: "ml spec ''strongem'' zv sz us = None \<and> wav spec \<noteq> [] \<longrightarrow>
      (\<exists>v'. plot_loop ml mode (Some zv) linetype smo verbose kw 0 (pre @ [spec]) ?v0
               = (evs @ (p # ?M), Inr v'))"
    if "exn_class e = NameError"
    using ev [OF that] ok [OF that] unfolding one by auto
  have D: "plot_all ml (pre @ spec # post) plotmode mode title0 (Some zv) showz0
              linetype smo verbose kw
           = (evs @ [p, Mark_lines spec linetype zv sz us], Some e)"
    if "exn_class e \<noteq> NameError"
    using other [OF that] unfolding plot_all_def all by simp
  from A B C D show ?thesis by (intro exI [of _ p]) simp
qed

text \<open>C9 as stated fails when the collaborator signals the unknown line style with a
  \<open>KeyError\<close>: there is no call with \<open>'strongem'\<close> and the error reaches the caller.\<close>

theorem plot_all_mark_lines_fallback_counterexample:
  "strongem_or_keyerror order_blue ''balmer'' (num (1 / 2)) False False
     = Some (Exn KeyError [''balmer''] None)
   \<and> plot_all strongem_or_keyerror [order_blue] ''single'' ''input'' TitleNone
       (Some (num (1 / 2))) True ''balmer'' None False []
     = ([Plot order_blue ''input'' TitleFalse [],
         Mark_lines order_blue ''balmer'' (num (1 / 2)) False False],
        Some (Exn KeyError [''balmer''] None))"
  by (simp add: plot_all_def plot_body_def mark_step_def len_def order_blue_def
        strongem_or_keyerror_def)

text \<open>C9, as the code has it, at the second of two orders, with a line style for which
  the collaborator raises \<open>NameError\<close>.\<close>

theorem plot_all_mark_lines_fallback_witness:
  "strongem_only order_red ''balmer'' (num (1 / 2)) True False
     = Some (Exn NameError [''balmer''] None)
   \<and> (\<exists>p rest.
         fst (plot_all strongem_only [order_blue, order_red] ''single'' ''input'' TitleNone
                (Some (num (1 / 2))) True ''balmer'' None False [])
         = [Plot order_blue ''input'' TitleFalse [],
            Mark_lines order_blue ''balmer'' (num (1 / 2)) False False,
            Mark_lines order_blue ''strongem'' (num (1 / 2)) False False]
           @ [p, Mark_lines order_red ''balmer'' (num (1 / 2)) True False,
              Mark_lines order_red ''strongem'' (num (1 / 2)) True False] @ rest)
   \<and> (\<exists>v'. snd (plot_loop strongem_only ''input'' (Some (num (1 / 2))) ''balmer'' None False []
                   0 ([order_blue] @ [order_red])
                   \<lparr>title = TitleNone, showz = True,
                    wmin = Val (Fin (10 ^ 12)), wmax = Val (Fin 0), i = 0\<rparr>) = Inr v')"
proof -
  let ?evs = "[Plot order_blue ''input'' TitleFalse [],
            Mark_lines order_blue ''balmer'' (num (1 / 2)) False False,
            Mark_lines order_blue ''strongem'' (num (1 / 2)) False False]"
  let ?e = "Exn NameError [''balmer''] None"
  have reach: "plot_loop strongem_only ''input'' (Some (num (1 / 2))) ''balmer'' None False [] 0
                 [order_blue]
                 \<lparr>title = TitleNone, showz = True,
                  wmin = Val (Fin (10 ^ 12)), wmax = Val (Fin 0), i = 0\<rparr>
               = (?evs, Inr \<lparr>title = TitleFalse, showz = False,
                            wmin = Val (Fin 4000), wmax = Val (Fin 5000), i = 1\<rparr>)"
    by (simp add: plot_body_def mark_step_def len_def order_blue_def strongem_only_def num_def)
  have sz: "True = (int (length [order_blue]) = int (len order_red) - 1)"
    by (simp add: len_def order_red_def)
  have us: "False = ((None :: int option) \<noteq> None)" by simp
  have fail: "strongem_only order_red ''balmer'' (num (1 / 2)) True False = Some ?e"
    by (simp add: strongem_only_def)
  have cls: "exn_class ?e = NameError" by simp
  have ok: "strongem_only order_red ''strongem'' (num (1 / 2)) True False = None
            \<and> wav order_red \<noteq> []"
    by (simp add: strongem_only_def order_red_def)
  from plot_all_mark_lines_fallback [where ml = strongem_only and post = "[]"
      and plotmode = "''single''", OF reach sz us fail] ok fail cls
  show ?thesis by fastforce
qed

text \<open>
  C1. The labels of each order come from comparing \<open>count\<close> with \<open>len(spec) - 1\<close> of the
  order itself. In a collection of an order of five samples followed by an order of two,
  called without a title, the second order meets the comparison (\<open>1 = 2 - 1\<close>): its
  \<open>showz\<close> is true, but its title is \<open>False\<close> and not \<open>'Extracted Spectrum'\<close>, because
  the first order has already overwritten the \<open>title\<close> variable with \<open>False\<close>.
\<close>

theorem plot_all_title_lost:
  "plot_all any_style [order_five, order_red]
      ''single'' ''input'' TitleNone (Some (num (1 / 2))) True ''strongem'' None False []
   = ([Plot order_five ''input'' TitleFalse [],
       Mark_lines order_five ''strongem'' (num (1 / 2)) False False,
       Plot order_red ''input'' TitleFalse [],
       Mark_lines order_red ''strongem'' (num (1 / 2)) True False,
       Xlim (num 1) (num 6000)], None)"
  by (simp add: plot_all_def plot_body_def mark_step_def len_def any_style_def
        order_five_def order_red_def num_def)

end
